theory Spec2Isabelle
  imports Complex_Main "HOL-Library.Word"
begin

section \<open>Python exceptions\<close>

text \<open>
  Both front-ends catch with \<^verbatim>\<open>except Exception\<close>, and the loader of \<^verbatim>\<open>app.py\<close> has one
  bare \<^verbatim>\<open>except:\<close>. The two differ on the exceptions that derive from \<^verbatim>\<open>BaseException\<close>
  only, so an exception carries its class, and \<open>is_Exception\<close> tells the two kinds apart.
\<close>

datatype exn_class =
    FileNotFoundError | OSError | TypeError | ValueError | IndexError | KeyError
  | UnidentifiedImageError | MemoryError | KeyboardInterrupt | SystemExit

datatype exn = Exn exn_class string


fun str_exn :: "exn \<Rightarrow> string" where
  "str_exn (Exn c msg) = msg"

fun is_Exception :: "exn \<Rightarrow> bool" where
  "is_Exception (Exn c msg) = (c \<noteq> KeyboardInterrupt \<and> c \<noteq> SystemExit)"

definition bind_exn :: "exn + 'a \<Rightarrow> ('a \<Rightarrow> exn + 'b) \<Rightarrow> exn + 'b" where
  "bind_exn m f = (case m of Inl e \<Rightarrow> Inl e | Inr x \<Rightarrow> f x)"

text \<open>Indexing a Python list or a NumPy vector with a non-negative index.\<close>

definition getitem :: "'a list \<Rightarrow> nat \<Rightarrow> exn + 'a" where
  "getitem xs i =
     (if i < length xs then Inr (xs ! i) else Inl (Exn IndexError ''index out of range''))"

section \<open>Configuration\<close>

definition MODEL_PATH :: string where
  "MODEL_PATH = ''best_lung_model.h5''"

definition IMG_SIZE :: "nat \<times> nat" where
  "IMG_SIZE = (150, 150)"

definition CLASS_NAMES :: "string list" where
  "CLASS_NAMES = [''Adenocarcinoma'', ''Normal'', ''Squamous Cell Carcinoma'']"

datatype emoji = RedCircle | OrangeCircle | GreenCircle

record class_info =
  emoji :: emoji
  color :: string
  description :: string
  action :: string
  severity :: string

definition CLASS_INFO :: "string \<rightharpoonup> class_info" where
  "CLASS_INFO = map_of
     [(''Adenocarcinoma'',
         \<lparr>emoji = RedCircle, color = ''#FF6B6B'',
          description = ''A type of non-small cell lung cancer that begins in mucus-secreting cells.'',
          action = ''Immediate consultation with oncologist recommended.'',
          severity = ''high''\<rparr>),
      (''Squamous Cell Carcinoma'',
         \<lparr>emoji = OrangeCircle, color = ''#FF8C42'',
          description = ''A type of non-small cell lung cancer that begins in flat cells lining the airways.'',
          action = ''Immediate consultation with oncologist recommended.'',
          severity = ''high''\<rparr>),
      (''Normal'',
         \<lparr>emoji = GreenCircle, color = ''#51CF66'',
          description = ''Healthy lung tissue with no signs of malignancy.'',
          action = ''No immediate action required. Continue regular monitoring.'',
          severity = ''low''\<rparr>)]"

section \<open>Images (PIL) and arrays (NumPy)\<close>

text \<open>
  PIL and NumPy are libraries outside the repository. An image is what the handlers read
  of it: its mode, its size (width, height), the format of the file it was decoded from
  (\<open>None\<close> for an image the library made itself) and its pixels, row by row, each pixel
  a list of 8-bit band values. The modes are PIL's 8-bit modes; \<open>bands\<close> is the number
  of bands of each.
\<close>

datatype mode = ModeL | ModeLA | ModeP | ModeRGB | ModeRGBA | ModeCMYK

fun bands :: "mode \<Rightarrow> nat" where
  "bands ModeL = 1"
| "bands ModeLA = 2"
| "bands ModeP = 1"
| "bands ModeRGB = 3"
| "bands ModeRGBA = 4"
| "bands ModeCMYK = 4"

record image =
  mode :: mode
  size_im :: "nat \<times> nat"
  format :: "string option"
  pixels :: "8 word list list list"

definition wf_image :: "image \<Rightarrow> bool" where
  "wf_image img =
     (length (pixels img) = snd (size_im img) \<and>
      list_all (\<lambda>row. length row = fst (size_im img) \<and>
                 list_all (\<lambda>px. length px = bands (mode img)) row) (pixels img))"

text \<open>
  \<^verbatim>\<open>img.convert('RGB')\<close> on an RGBA image: PIL returns a new image of the same size whose
  pixels keep the first three bands (the alpha band is dropped, not blended). The new
  image was made by the library, so its \<^verbatim>\<open>format\<close> attribute is \<open>None\<close>.
\<close>

definition convert_RGB :: "image \<Rightarrow> image" where
  "convert_RGB img =
     \<lparr>mode = ModeRGB, size_im = size_im img, format = None,
      pixels = map (map (take 3)) (pixels img)\<rparr>"

text \<open>
  A NumPy array is a nested array of scalars; \<open>shape\<close> reads the extent of each axis
  along the first element, as NumPy does for a rectangular array. The elements are
  \<^verbatim>\<open>float32\<close> in the source and real numbers here: rounding of the binary format is outside
  the model.
\<close>

datatype 'a ndarray = Scalar 'a | Array "'a ndarray list"

fun shape :: "'a ndarray \<Rightarrow> nat list" where
  "shape (Scalar x) = []"
| "shape (Array []) = [0]"
| "shape (Array (a # as)) = Suc (length as) # shape a"

type_synonym tensor = "real ndarray"

text \<open>
  \<^verbatim>\<open>np.array(img, dtype=np.float32)\<close>: height by width for a single-band image, height by
  width by bands otherwise.
\<close>

definition np_array :: "image \<Rightarrow> tensor" where
  "np_array img =
     Array (map (\<lambda>row. Array (map (\<lambda>px.
        if bands (mode img) = 1 then Scalar (real (unat (hd px)))
        else Array (map (\<lambda>v. Scalar (real (unat v))) px)) row)) (pixels img))"

definition expand_dims0 :: "'a ndarray \<Rightarrow> 'a ndarray" where
  "expand_dims0 a = Array [a]"

definition true_divide :: "tensor \<Rightarrow> real \<Rightarrow> tensor" where
  "true_divide a d = map_ndarray (\<lambda>x. x / d) a"

section \<open>The Keras model and the libraries a request calls\<close>

text \<open>
  The pretrained network is opaque: a model is the instance that deserialisation made
  (told apart by \<open>instance_id\<close>), whether \<^verbatim>\<open>compile\<close> has run on it, and its forward pass,
  which returns a batch of score vectors or raises.
\<close>

record keras_model =
  instance_id :: nat
  compiled :: bool
  forward :: "tensor \<Rightarrow> exn + real list list"

text \<open>
  The environment holds the library and operating-system calls the source makes:
  \<^verbatim>\<open>os.path.exists\<close>, \<^verbatim>\<open>os.path.getsize\<close>, \<^verbatim>\<open>keras.models.load_model(path, compile=False)\<close> with
  the \<^verbatim>\<open>safe_mode\<close> keyword when the caller gives one, \<^verbatim>\<open>model.compile\<close>, \<^verbatim>\<open>Image.open\<close> and
  \<^verbatim>\<open>Image.resize\<close>.
\<close>

record env =
  path_exists :: "string \<Rightarrow> bool"
  path_getsize :: "string \<Rightarrow> nat"
  keras_load_model :: "string \<Rightarrow> bool option \<Rightarrow> exn + keras_model"
  model_compile :: "keras_model \<Rightarrow> exn + keras_model"
  image_open :: "8 word list \<Rightarrow> exn + image"
  resize :: "image \<Rightarrow> nat \<times> nat \<Rightarrow> image"

text \<open>
  What the handlers rely on from \<^verbatim>\<open>Image.resize\<close>: the result is a well-formed image of
  the size asked for, in the mode of the source.
\<close>

definition resize_ok :: "env \<Rightarrow> image \<Rightarrow> bool" where
  "resize_ok env img =
     (let r = resize env img IMG_SIZE
      in wf_image r \<and> mode r = mode img \<and> size_im r = IMG_SIZE)"

text \<open>All band values of an image, in reading order.\<close>

definition band_values :: "image \<Rightarrow> 8 word list" where
  "band_values img = concat (concat (pixels img))"

text \<open>The calls made to the environment are recorded in the order they happen.\<close>

datatype call =
    Call_exists string
  | Call_getsize string
  | Call_load_model string "bool option"
  | Call_compile nat
  | Call_open
  | Call_resize
  | Call_predict tensor

section \<open>The REST front-end: \<^verbatim>\<open>app.py\<close>\<close>

subsection \<open>Loading the model\<close>

text \<open>The module's global \<^verbatim>\<open>model\<close>, with the record of the environment calls so far.\<close>

record server =
  model :: "keras_model option"
  calls :: "call list"

definition called :: "call \<Rightarrow> server \<Rightarrow> server" where
  "called c s = s\<lparr>calls := calls s @ [c]\<rparr>"

text \<open>
  The outer \<^verbatim>\<open>except Exception as e: ... return None\<close> of \<^verbatim>\<open>load_model_once\<close>: an
  \<^verbatim>\<open>Exception\<close> becomes the result \<open>None\<close>, anything else leaves the function.
\<close>

definition load_failed :: "exn \<Rightarrow> server \<Rightarrow> (exn + keras_model option) \<times> server" where
  "load_failed e s = (if is_Exception e then (Inr None, s) else (Inl e, s))"

text \<open>
  From the assignment of the global on: \<^verbatim>\<open>model.compile(...)\<close> works on the instance the
  global already names, then \<^verbatim>\<open>return model\<close>.
\<close>

definition load_finish :: "env \<Rightarrow> keras_model \<Rightarrow> server \<Rightarrow> (exn + keras_model option) \<times> server" where
  "load_finish env m s =
     (let s1 = called (Call_compile (instance_id m)) (s\<lparr>model := Some m\<rparr>)
      in case model_compile env m of
           Inl e \<Rightarrow> load_failed e s1
         | Inr m' \<Rightarrow> (Inr (Some m'), s1\<lparr>model := Some m'\<rparr>))"

definition load_model_once :: "env \<Rightarrow> server \<Rightarrow> (exn + keras_model option) \<times> server" where
  "load_model_once env s =
     (case model s of
        Some m \<Rightarrow> (Inr (Some m), s)
      | None \<Rightarrow>
          (let s1 = called (Call_exists MODEL_PATH) s in
           if \<not> path_exists env MODEL_PATH
           then load_failed (Exn FileNotFoundError (''Model file not found: '' @ MODEL_PATH)) s1
           else
             (let s2 = called (Call_getsize MODEL_PATH) s1;
                  s3 = called (Call_load_model MODEL_PATH (Some False)) s2
              in (case keras_load_model env MODEL_PATH (Some False) of
                    Inr m \<Rightarrow> load_finish env m s3
                  | Inl e1 \<Rightarrow>
                      (let s4 = called (Call_load_model MODEL_PATH None) s3
                       in (case keras_load_model env MODEL_PATH None of
                             Inr m \<Rightarrow> load_finish env m s4
                           | Inl e2 \<Rightarrow> load_failed e2 s4))))))"

text \<open>Calling the loader \<open>n\<close> times in a row; the results come in the order of the calls.\<close>

fun load_times :: "env \<Rightarrow> nat \<Rightarrow> server \<Rightarrow> (exn + keras_model option) list \<times> server" where
  "load_times env 0 s = ([], s)"
| "load_times env (Suc n) s =
     (let (r, s1) = load_model_once env s;
          (rs, s2) = load_times env n s1
      in (r # rs, s2))"

subsection \<open>The prediction endpoint\<close>

text \<open>
  \<^verbatim>\<open>np.argmax\<close> on a vector: the scan keeps the first position of the largest value seen,
  and an empty vector raises \<^verbatim>\<open>ValueError\<close>.
\<close>

fun argmax_scan :: "real list \<Rightarrow> nat \<Rightarrow> nat \<Rightarrow> real \<Rightarrow> nat" where
  "argmax_scan [] i best bv = best"
| "argmax_scan (x # xs) i best bv =
     (if bv < x then argmax_scan xs (Suc i) i x else argmax_scan xs (Suc i) best bv)"

definition np_argmax :: "real list \<Rightarrow> exn + nat" where
  "np_argmax xs =
     (case xs of
        [] \<Rightarrow> Inl (Exn ValueError ''attempt to get argmax of an empty sequence'')
      | x # rest \<Rightarrow> Inr (argmax_scan rest 1 0 x))"

text \<open>
  Python's \<^verbatim>\<open>round(x, ndigits)\<close> on a float: the nearest multiple of the \<open>ndigits\<close>-th
  decimal place, a tie going to the even one.
\<close>

definition py_round :: "real \<Rightarrow> nat \<Rightarrow> real" where
  "py_round x ndigits =
     (let y = x * 10 ^ ndigits;
          f = \<lfloor>y\<rfloor>;
          d = y - of_int f
      in of_int (if d < 1 / 2 then f
                 else if 1 / 2 < d then f + 1
                 else if even f then f else f + 1) / 10 ^ ndigits)"

record upload =
  filename :: string
  content :: "8 word list"

record request =
  files :: "string \<rightharpoonup> upload"

record image_info =
  original_width :: nat
  original_height :: nat
  format_name :: string

text \<open>
  The JSON body of a successful response. Its \<^verbatim>\<open>prediction_time\<close> and \<^verbatim>\<open>timestamp\<close> read
  the clock and are left out.
\<close>

record prediction =
  predicted_class :: string
  confidence :: real
  probabilities :: "(string \<times> real) list"
  info :: class_info
  image_info :: image_info

datatype body = Failure string | Success prediction

type_synonym response = "nat \<times> body"

text \<open>Lines 163 to 180 of \<^verbatim>\<open>predict\<close>: the image kept, its size, and the array for the model.\<close>

definition preprocess :: "env \<Rightarrow> image \<Rightarrow> image \<times> (nat \<times> nat) \<times> tensor" where
  "preprocess env img0 =
     (let img = (if mode img0 = ModeRGBA then convert_RGB img0 else img0);
          (original_width, original_height) = size_im img;
          img_resized = resize env img IMG_SIZE;
          img_array = np_array img_resized;
          img_array = expand_dims0 img_array;
          img_array = true_divide img_array 255
      in (img, (original_width, original_height), img_array))"

text \<open>The dictionary comprehension over \<^verbatim>\<open>range(len(CLASS_NAMES))\<close>, as an association list.\<close>

fun class_probabilities :: "real list \<Rightarrow> nat list \<Rightarrow> exn + (string \<times> real) list" where
  "class_probabilities p [] = Inr []"
| "class_probabilities p (i # is) =
     bind_exn (getitem CLASS_NAMES i) (\<lambda>k.
     bind_exn (getitem p i) (\<lambda>v.
     bind_exn (class_probabilities p is) (\<lambda>rest.
     Inr ((k, v * 100) # rest))))"

definition lookup :: "('k \<rightharpoonup> 'v) \<Rightarrow> 'k \<Rightarrow> exn + 'v" where
  "lookup d k = (case d k of None \<Rightarrow> Inl (Exn KeyError ''key'') | Some v \<Rightarrow> Inr v)"

text \<open>Lines 188 to 215 of \<^verbatim>\<open>predict\<close>: from the model's output to the response body.\<close>

definition format_response :: "real list list \<Rightarrow> image \<Rightarrow> nat \<Rightarrow> nat \<Rightarrow> exn + prediction" where
  "format_response predictions img width height =
     bind_exn (getitem predictions 0) (\<lambda>p0.
     bind_exn (np_argmax p0) (\<lambda>predicted_class_idx.
     bind_exn (getitem CLASS_NAMES predicted_class_idx) (\<lambda>predicted.
     bind_exn (getitem p0 predicted_class_idx) (\<lambda>v.
     bind_exn (class_probabilities p0 [0 ..< length CLASS_NAMES]) (\<lambda>probs.
     bind_exn (lookup CLASS_INFO predicted) (\<lambda>ci.
     Inr \<lparr>predicted_class = predicted,
          confidence = py_round (v * 100) 2,
          probabilities = map (\<lambda>(k, v). (k, py_round v 2)) probs,
          info = ci,
          image_info = \<lparr>original_width = width, original_height = height,
                        format_name = (case format img of Some f \<Rightarrow> f | None \<Rightarrow> ''Unknown'')\<rparr>\<rparr>))))))"

text \<open>
  The handler's \<^verbatim>\<open>except Exception as e\<close>: status 500 with the exception's text; an
  exception that is not an \<^verbatim>\<open>Exception\<close> leaves the handler.
\<close>

definition predict_failed :: "exn \<Rightarrow> exn + response" where
  "predict_failed e = (if is_Exception e then Inr (500, Failure (str_exn e)) else Inl e)"

text \<open>
  \<^verbatim>\<open>POST /api/predict\<close>. The result is the list of environment calls the request made and
  what the handler returned or raised.
\<close>

definition predict :: "env \<Rightarrow> server \<Rightarrow> request \<Rightarrow> call list \<times> (exn + response)" where
  "predict env s req =
     (case model s of
        None \<Rightarrow> ([], Inr (500, Failure ''Model not loaded''))
      | Some m \<Rightarrow>
          (case files req ''file'' of
             None \<Rightarrow> ([], Inr (400, Failure ''No file uploaded''))
           | Some file \<Rightarrow>
               (if filename file = ''''
                then ([], Inr (400, Failure ''No file selected''))
                else
                  (case image_open env (content file) of
                     Inl e \<Rightarrow> ([Call_open], predict_failed e)
                   | Inr img0 \<Rightarrow>
                       (let (img, (width, height), img_array) = preprocess env img0;
                            cs = [Call_open, Call_resize, Call_predict img_array]
                        in (case forward m img_array of
                              Inl e \<Rightarrow> (cs, predict_failed e)
                            | Inr predictions \<Rightarrow>
                                (case format_response predictions img width height of
                                   Inl e \<Rightarrow> (cs, predict_failed e)
                                 | Inr r \<Rightarrow> (cs, Inr (200, Success r)))))))))"

section \<open>The dashboard front-end: \<^verbatim>\<open>app_streamlit.py\<close>\<close>

subsection \<open>Loading the model\<close>

text \<open>
  The body of \<^verbatim>\<open>load_model\<close>: one deserialisation, without the \<^verbatim>\<open>safe_mode\<close> keyword, then
  \<^verbatim>\<open>compile\<close>. It returns the pair \<^verbatim>\<open>(model, None)\<close> or \<^verbatim>\<open>(None, error_msg)\<close>.
\<close>

definition load_model_failed ::
  "exn \<Rightarrow> call list \<Rightarrow> (exn + keras_model option \<times> string option) \<times> call list" where
  "load_model_failed e cs = (if is_Exception e then (Inr (None, Some (str_exn e)), cs) else (Inl e, cs))"

definition load_model_body ::
  "env \<Rightarrow> call list \<Rightarrow> (exn + keras_model option \<times> string option) \<times> call list" where
  "load_model_body env cs =
     (let cs1 = cs @ [Call_exists MODEL_PATH] in
      if \<not> path_exists env MODEL_PATH
      then load_model_failed (Exn FileNotFoundError (''Model file not found: '' @ MODEL_PATH)) cs1
      else
        (let cs2 = cs1 @ [Call_getsize MODEL_PATH, Call_load_model MODEL_PATH None]
         in (case keras_load_model env MODEL_PATH None of
               Inl e \<Rightarrow> load_model_failed e cs2
             | Inr m \<Rightarrow>
                 (let cs3 = cs2 @ [Call_compile (instance_id m)]
                  in (case model_compile env m of
                        Inl e \<Rightarrow> load_model_failed e cs3
                      | Inr m' \<Rightarrow> (Inr (Some m', None), cs3))))))"

text \<open>
  \<^verbatim>\<open>@st.cache_resource\<close> is Streamlit's: the first call that returns stores its return
  value, and every later call returns the stored value without running the body. A call
  that raises stores nothing.
\<close>

record resource_cache =
  cached :: "(keras_model option \<times> string option) option"
  body_calls :: "call list"

definition load_model ::
  "env \<Rightarrow> resource_cache \<Rightarrow> (exn + keras_model option \<times> string option) \<times> resource_cache" where
  "load_model env c =
     (case cached c of
        Some r \<Rightarrow> (Inr r, c)
      | None \<Rightarrow>
          (case load_model_body env (body_calls c) of
             (Inr r, cs) \<Rightarrow> (Inr r, \<lparr>cached = Some r, body_calls = cs\<rparr>)
           | (Inl e, cs) \<Rightarrow> (Inl e, \<lparr>cached = None, body_calls = cs\<rparr>)))"

fun load_model_times ::
  "env \<Rightarrow> nat \<Rightarrow> resource_cache \<Rightarrow> (exn + keras_model option \<times> string option) list \<times> resource_cache" where
  "load_model_times env 0 c = ([], c)"
| "load_model_times env (Suc n) c =
     (let (r, c1) = load_model env c;
          (rs, c2) = load_model_times env n c1
      in (r # rs, c2))"

subsection \<open>Prediction\<close>

text \<open>Lines 186 to 196 of \<^verbatim>\<open>predict_image\<close>: the array for the model.\<close>

definition image_array :: "env \<Rightarrow> image \<Rightarrow> tensor" where
  "image_array env img =
     (let img_resized = resize env img IMG_SIZE;
          img_array = np_array img_resized;
          img_array = expand_dims0 img_array
      in true_divide img_array 255)"

text \<open>
  \<^verbatim>\<open>predict_image\<close> returns four values: class, confidence, probabilities and error, the
  first three \<open>None\<close> when the body raised an \<^verbatim>\<open>Exception\<close>, the last \<open>None\<close> otherwise.
\<close>

type_synonym outcome = "string option \<times> real option \<times> (string \<times> real) list option \<times> string option"

definition predict_image :: "env \<Rightarrow> keras_model \<Rightarrow> image \<Rightarrow> exn + outcome" where
  "predict_image env m img =
     (case
        bind_exn (forward m (image_array env img)) (\<lambda>predictions.
        bind_exn (getitem predictions 0) (\<lambda>p0.
        bind_exn (np_argmax p0) (\<lambda>predicted_class_idx.
        bind_exn (getitem CLASS_NAMES predicted_class_idx) (\<lambda>predicted.
        bind_exn (getitem p0 predicted_class_idx) (\<lambda>v.
        bind_exn (class_probabilities p0 [0 ..< length CLASS_NAMES]) (\<lambda>probs.
        Inr (Some predicted, Some (v * 100), Some probs, None)))))))
      of
        Inr r \<Rightarrow> Inr r
      | Inl e \<Rightarrow> (if is_Exception e then Inr (None, None, None, Some (str_exn e)) else Inl e))"

subsection \<open>The analysis tab\<close>

text \<open>
  The attributes of \<^verbatim>\<open>st.session_state\<close> that the analysis tab writes and reads. An
  attribute that was never set, or holds Python's \<open>None\<close>, is \<open>None\<close> here.
\<close>

record session_state =
  prediction_made :: "bool option"
  ss_predicted_class :: "string option"
  ss_confidence :: "real option"
  ss_probabilities :: "(string \<times> real) list option"
  analysis_count :: nat
  analysis_time :: "string option"

text \<open>Python's truth value of the \<^verbatim>\<open>error\<close> result: \<open>None\<close> and the empty string are false.\<close>

definition truthy :: "string option \<Rightarrow> bool" where
  "truthy e = (case e of None \<Rightarrow> False | Some msg \<Rightarrow> msg \<noteq> [])"

text \<open>
  Lines 340 to 376 of \<^verbatim>\<open>main\<close>, run when the analyse button was pressed: the text handed
  to \<^verbatim>\<open>st.error\<close>, if any, and the session state afterwards. \<open>now\<close> is the clock's time.
\<close>

definition analyze ::
  "env \<Rightarrow> keras_model \<Rightarrow> image \<Rightarrow> string \<Rightarrow> session_state \<Rightarrow> exn + string option \<times> session_state" where
  "analyze env m img now ss =
     bind_exn (predict_image env m img) (\<lambda>(predicted, conf, probs, error).
       if truthy error
       then Inr (Some (''Error during analysis: '' @ the error), ss\<lparr>prediction_made := Some False\<rparr>)
       else Inr (None,
                 ss\<lparr>prediction_made := Some True,
                    ss_predicted_class := predicted,
                    ss_confidence := conf,
                    ss_probabilities := probs,
                    analysis_count := analysis_count ss + 1,
                    analysis_time := Some now\<rparr>))"

text \<open>
  Lines 394 to 514 of \<^verbatim>\<open>main\<close>: the results column shows the stored diagnosis when
  \<^verbatim>\<open>prediction_made\<close> is set and true, and a placeholder otherwise. The distribution is
  listed by falling probability, equal ones in stored order.
\<close>

datatype panel =
    Results string string class_info real "(string \<times> real) list"
  | Placeholder

definition results_panel :: "session_state \<Rightarrow> exn + panel" where
  "results_panel ss =
     (if prediction_made ss = Some True
      then
        (case (analysis_time ss, ss_predicted_class ss, ss_confidence ss, ss_probabilities ss) of
           (Some t, Some c, Some conf, Some probs) \<Rightarrow>
             bind_exn (lookup CLASS_INFO c) (\<lambda>ci.
             Inr (Results t c ci conf (sort_key (\<lambda>kv. - snd kv) probs)))
         | _ \<Rightarrow> Inl (Exn KeyError ''None''))
      else Inr Placeholder)"

text \<open>One run of the page with the analyse button pressed: the inline error and the panel.\<close>

definition run_analysis ::
  "env \<Rightarrow> keras_model \<Rightarrow> image \<Rightarrow> string \<Rightarrow> session_state
     \<Rightarrow> exn + (string option \<times> panel) \<times> session_state" where
  "run_analysis env m img now ss =
     bind_exn (analyze env m img now ss) (\<lambda>(err, ss').
     bind_exn (results_panel ss') (\<lambda>p.
     Inr ((err, p), ss')))"

section \<open>Example inputs\<close>

text \<open>
  A nearest-neighbour resampler stands for \<^verbatim>\<open>Image.resize\<close> in the examples: the pixel at
  \<open>(x, y)\<close> of the result is the source pixel at the scaled position.
\<close>

definition resize_nearest :: "image \<Rightarrow> nat \<times> nat \<Rightarrow> image" where
  "resize_nearest img sz =
     (let (w, h) = sz; (sw, sh) = size_im img
      in \<lparr>mode = mode img, size_im = sz, format = None,
          pixels = map (\<lambda>y. map (\<lambda>x. pixels img ! (y * sh div h) ! (x * sw div w)) [0 ..< w]) [0 ..< h]\<rparr>)"

definition example_model :: keras_model where
  "example_model =
     \<lparr>instance_id = 1, compiled = False, forward = (\<lambda>t. Inr [[7 / 10, 2 / 10, 1 / 10]])\<rparr>"

definition rgba_png :: image where
  "rgba_png = \<lparr>mode = ModeRGBA, size_im = (2, 1), format = Some ''PNG'',
               pixels = [[[255, 0, 0, 128], [0, 255, 0, 255]]]\<rparr>"

definition gray_png :: image where
  "gray_png = \<lparr>mode = ModeL, size_im = (1, 1), format = Some ''PNG'', pixels = [[[200]]]\<rparr>"

text \<open>
  An environment in which the model file exists, \<^verbatim>\<open>load_model\<close> rejects the \<^verbatim>\<open>safe_mode\<close>
  keyword and loads without it, and two byte strings decode to the two images above.
\<close>

definition example_env :: env where
  "example_env =
     \<lparr>path_exists = (\<lambda>p. p = MODEL_PATH),
      path_getsize = (\<lambda>p. 15000000),
      keras_load_model = (\<lambda>p kw. if kw = Some False
                            then Inl (Exn TypeError ''unexpected keyword argument safe_mode'')
                            else Inr example_model),
      model_compile = (\<lambda>m. Inr (m\<lparr>compiled := True\<rparr>)),
      image_open = (\<lambda>bs. if bs = [1] then Inr rgba_png
                          else if bs = [2] then Inr gray_png
                          else Inl (Exn UnidentifiedImageError ''cannot identify image file'')),
      resize = resize_nearest\<rparr>"

text \<open>
  The same environment, except that deserialisation with \<^verbatim>\<open>safe_mode=False\<close> runs out of
  memory.
\<close>

definition memory_error_env :: env where
  "memory_error_env =
     example_env\<lparr>keras_load_model := (\<lambda>p kw. if kw = Some False
                            then Inl (Exn MemoryError ''out of memory'')
                            else Inr example_model)\<rparr>"

text \<open>A recorded call that deserialised a model: a \<^verbatim>\<open>load_model\<close> call that returned one.\<close>

fun deserialised :: "env \<Rightarrow> call \<Rightarrow> bool" where
  "deserialised env (Call_load_model p kw) = (\<not> isl (keras_load_model env p kw))"
| "deserialised env c = False"

text \<open>A model whose forward pass rejects its input, and a session holding an earlier result.\<close>

definition failing_model :: keras_model where
  "failing_model =
     \<lparr>instance_id = 2, compiled = True,
      forward = (\<lambda>t. Inl (Exn ValueError ''incompatible input shape''))\<rparr>"

definition prior_session :: session_state where
  "prior_session =
     \<lparr>prediction_made = Some True,
      ss_predicted_class = Some ''Normal'',
      ss_confidence = Some 90,
      ss_probabilities =
        Some [(''Adenocarcinoma'', 6), (''Normal'', 90), (''Squamous Cell Carcinoma'', 4)],
      analysis_count = 1,
      analysis_time = Some ''10:00:00''\<rparr>"

section \<open>Properties of the prediction endpoint's guards\<close>

text \<open>
  C4. While the global \<^verbatim>\<open>model\<close> is \<open>None\<close>, every request to \<^verbatim>\<open>POST /api/predict\<close> is
  answered with status 500 and the body \<^verbatim>\<open>{error: 'Model not loaded', success: False}\<close>,
  and the request makes no call to the environment: the image is not decoded and the
  model is not run.
\<close>

theorem predict_model_not_loaded:
  "model s = None \<Longrightarrow> predict env s req = ([], Inr (500, Failure ''Model not loaded''))"
  by (simp add: predict_def)

theorem predict_model_not_loaded_witness:
  "model \<lparr>model = None, calls = []\<rparr> = None \<and>
   predict example_env \<lparr>model = None, calls = []\<rparr>
      \<lparr>files = [''file'' \<mapsto> \<lparr>filename = ''a.png'', content = [1]\<rparr>]\<rparr>
     = ([], Inr (500, Failure ''Model not loaded''))"
  using predict_model_not_loaded [of "\<lparr>model = None, calls = []\<rparr>" example_env
      "\<lparr>files = [''file'' \<mapsto> \<lparr>filename = ''a.png'', content = [1]\<rparr>]\<rparr>"]
  by simp

text \<open>
  C5, as stated, fails: the check of the model comes before the check of the upload, so a
  request without a file that arrives while the model is not loaded gets status 500.
\<close>

theorem predict_missing_file_counterexample:
  "files \<lparr>files = Map.empty\<rparr> ''file'' = None \<and>
   predict example_env \<lparr>model = None, calls = []\<rparr> \<lparr>files = Map.empty\<rparr>
     = ([], Inr (500, Failure ''Model not loaded''))"
  by (simp add: predict_def)

text \<open>
  C5, amended. While the model is loaded, a request whose \<^verbatim>\<open>file\<close> field is missing is
  answered with status 400 and the error \<^verbatim>\<open>No file uploaded\<close>, and one whose file has an
  empty name with status 400 and the error \<^verbatim>\<open>No file selected\<close>; neither makes a call to
  the environment.
\<close>

theorem predict_missing_file:
  "model s = Some m \<Longrightarrow>
   files req ''file'' = None \<or> (\<exists>file. files req ''file'' = Some file \<and> filename file = '''') \<Longrightarrow>
   predict env s req =
     ([], Inr (400, Failure (if files req ''file'' = None
                             then ''No file uploaded'' else ''No file selected'')))"
  by (auto simp: predict_def)

theorem predict_missing_file_witness:
  "model \<lparr>model = Some example_model, calls = []\<rparr> = Some example_model \<and>
   files \<lparr>files = Map.empty\<rparr> ''file'' = None \<and>
   predict example_env \<lparr>model = Some example_model, calls = []\<rparr> \<lparr>files = Map.empty\<rparr>
     = ([], Inr (400, Failure ''No file uploaded'')) \<and>
   files \<lparr>files = [''file'' \<mapsto> \<lparr>filename = '''', content = []\<rparr>]\<rparr> ''file''
     = Some \<lparr>filename = '''', content = []\<rparr> \<and>
   filename \<lparr>filename = '''', content = []\<rparr> = '''' \<and>
   predict example_env \<lparr>model = Some example_model, calls = []\<rparr>
      \<lparr>files = [''file'' \<mapsto> \<lparr>filename = '''', content = []\<rparr>]\<rparr>
     = ([], Inr (400, Failure ''No file selected''))"
  using predict_missing_file [of "\<lparr>model = Some example_model, calls = []\<rparr>" example_model
      "\<lparr>files = Map.empty\<rparr>" example_env]
    predict_missing_file [of "\<lparr>model = Some example_model, calls = []\<rparr>" example_model
      "\<lparr>files = [''file'' \<mapsto> \<lparr>filename = '''', content = []\<rparr>]\<rparr>" example_env]
  by simp

section \<open>Properties of the model loaders\<close>

lemma load_model_once_loaded:
  "model s = Some m \<Longrightarrow> load_model_once env s = (Inr (Some m), s)"
  by (simp add: load_model_once_def)

lemma load_finish_model:
  "load_finish env m0 s = (Inr (Some m), s1) \<Longrightarrow> model s1 = Some m"
  by (auto simp: load_finish_def Let_def load_failed_def split: sum.splits if_splits)

lemma load_finish_calls:
  "load_finish env m0 s = (r, s1) \<Longrightarrow> calls s1 = calls s @ [Call_compile (instance_id m0)]"
  by (auto simp: load_finish_def Let_def load_failed_def called_def split: sum.splits if_splits)

lemma load_model_once_model:
  "load_model_once env s = (Inr (Some m), s1) \<Longrightarrow> model s1 = Some m"
  by (auto simp: load_model_once_def Let_def load_failed_def
      split: option.splits sum.splits if_splits dest: load_finish_model)

lemma load_times_loaded:
  "model s = Some m \<Longrightarrow> load_times env n s = (replicate n (Inr (Some m)), s)"
  by (induction n) (simp_all add: load_model_once_loaded)

lemma load_once_deserialised:
  "load_model_once env s = (Inr (Some m), s1) \<Longrightarrow> model s = None \<Longrightarrow>
   length (filter (deserialised env) (drop (length (calls s)) (calls s1))) = 1"
  by (auto simp: load_model_once_def Let_def load_failed_def called_def
      split: option.splits sum.splits if_splits dest!: load_finish_calls)

lemma load_model_cached:
  "cached c = Some r \<Longrightarrow> load_model env c = (Inr r, c)"
  by (simp add: load_model_def)

lemma load_model_stores:
  "load_model env c = (Inr r, c1) \<Longrightarrow> cached c1 = Some r"
  by (auto simp: load_model_def split: option.splits prod.splits sum.splits)

lemma load_model_times_cached:
  "cached c = Some r \<Longrightarrow> load_model_times env n c = (replicate n (Inr r), c)"
  by (induction n) (simp_all add: load_model_cached)

lemma load_model_deserialised:
  "load_model env c = (Inr (Some m, None), c1) \<Longrightarrow> cached c = None \<Longrightarrow>
   length (filter (deserialised env) (drop (length (body_calls c)) (body_calls c1))) = 1"
  by (auto simp: load_model_def load_model_body_def Let_def load_model_failed_def
      split: option.splits sum.splits if_splits prod.splits)

lemma example_load_once:
  "load_model_once example_env \<lparr>model = None, calls = []\<rparr> =
     (Inr (Some (example_model\<lparr>compiled := True\<rparr>)),
      \<lparr>model = Some (example_model\<lparr>compiled := True\<rparr>),
       calls = [Call_exists MODEL_PATH, Call_getsize MODEL_PATH,
                Call_load_model MODEL_PATH (Some False), Call_load_model MODEL_PATH None,
                Call_compile 1]\<rparr>)"
  by (simp add: load_model_once_def load_finish_def called_def example_env_def example_model_def)

lemma example_load_model:
  "load_model example_env \<lparr>cached = None, body_calls = []\<rparr> =
     (Inr (Some (example_model\<lparr>compiled := True\<rparr>), None),
      \<lparr>cached = Some (Some (example_model\<lparr>compiled := True\<rparr>), None),
       body_calls = [Call_exists MODEL_PATH, Call_getsize MODEL_PATH,
                     Call_load_model MODEL_PATH None, Call_compile 1]\<rparr>)"
  by (simp add: load_model_def load_model_body_def example_env_def example_model_def)

text \<open>
  C3. Once a call of \<^verbatim>\<open>load_model_once\<close> has returned a model, the next call returns the
  same model and leaves the state, with its record of environment calls, as it was: no
  existence check, no read, no deserialisation. So \<open>n + 1\<close> calls in a row return that
  model each time and end in the state the first call left, and when the model was not
  loaded before, the environment calls of all of them hold exactly one deserialisation
  that returned a model. The same holds of the dashboard's cached \<^verbatim>\<open>load_model\<close>.
\<close>

theorem load_idempotent:
  "(load_model_once env s = (Inr (Some m), s1) \<longrightarrow>
      load_model_once env s1 = (Inr (Some m), s1) \<and>
      load_times env (Suc n) s = (replicate (Suc n) (Inr (Some m)), s1) \<and>
      (model s = None \<longrightarrow>
         length (filter (deserialised env) (drop (length (calls s)) (calls s1))) = 1)) \<and>
   (load_model env c = (Inr (Some m', None), c1) \<longrightarrow>
      load_model env c1 = (Inr (Some m', None), c1) \<and>
      load_model_times env (Suc n) c = (replicate (Suc n) (Inr (Some m', None)), c1) \<and>
      (cached c = None \<longrightarrow>
         length (filter (deserialised env) (drop (length (body_calls c)) (body_calls c1))) = 1))"
proof (intro conjI impI)
  assume a: "load_model_once env s = (Inr (Some m), s1)"
  then have loaded: "model s1 = Some m" by (rule load_model_once_model)
  then show "load_model_once env s1 = (Inr (Some m), s1)" by (rule load_model_once_loaded)
  from a loaded show "load_times env (Suc n) s = (replicate (Suc n) (Inr (Some m)), s1)"
    by (simp add: load_times_loaded)
  assume "model s = None"
  with a show "length (filter (deserialised env) (drop (length (calls s)) (calls s1))) = 1"
    by (rule load_once_deserialised)
next
  assume a: "load_model env c = (Inr (Some m', None), c1)"
  then have stored: "cached c1 = Some (Some m', None)" by (rule load_model_stores)
  then show "load_model env c1 = (Inr (Some m', None), c1)" by (rule load_model_cached)
  from a stored
  show "load_model_times env (Suc n) c = (replicate (Suc n) (Inr (Some m', None)), c1)"
    by (simp add: load_model_times_cached)
  assume "cached c = None"
  with a
  show "length (filter (deserialised env) (drop (length (body_calls c)) (body_calls c1))) = 1"
    by (rule load_model_deserialised)
qed

theorem load_idempotent_witness:
  "load_model_once example_env \<lparr>model = None, calls = []\<rparr> =
     (Inr (Some (example_model\<lparr>compiled := True\<rparr>)),
      \<lparr>model = Some (example_model\<lparr>compiled := True\<rparr>),
       calls = [Call_exists MODEL_PATH, Call_getsize MODEL_PATH,
                Call_load_model MODEL_PATH (Some False), Call_load_model MODEL_PATH None,
                Call_compile 1]\<rparr>) \<and>
   model \<lparr>model = None, calls = []\<rparr> = None \<and>
   fst (load_times example_env 3 \<lparr>model = None, calls = []\<rparr>) =
     replicate 3 (Inr (Some (example_model\<lparr>compiled := True\<rparr>))) \<and>
   calls (snd (load_times example_env 3 \<lparr>model = None, calls = []\<rparr>)) =
     [Call_exists MODEL_PATH, Call_getsize MODEL_PATH,
      Call_load_model MODEL_PATH (Some False), Call_load_model MODEL_PATH None,
      Call_compile 1] \<and>
   load_model example_env \<lparr>cached = None, body_calls = []\<rparr> =
     (Inr (Some (example_model\<lparr>compiled := True\<rparr>), None),
      \<lparr>cached = Some (Some (example_model\<lparr>compiled := True\<rparr>), None),
       body_calls = [Call_exists MODEL_PATH, Call_getsize MODEL_PATH,
                     Call_load_model MODEL_PATH None, Call_compile 1]\<rparr>) \<and>
   cached \<lparr>cached = None, body_calls = []\<rparr> = None \<and>
   fst (load_model_times example_env 3 \<lparr>cached = None, body_calls = []\<rparr>) =
     replicate 3 (Inr (Some (example_model\<lparr>compiled := True\<rparr>), None)) \<and>
   body_calls (snd (load_model_times example_env 3 \<lparr>cached = None, body_calls = []\<rparr>)) =
     [Call_exists MODEL_PATH, Call_getsize MODEL_PATH,
      Call_load_model MODEL_PATH None, Call_compile 1]"
  using load_idempotent [of example_env "\<lparr>model = None, calls = []\<rparr>"
      "example_model\<lparr>compiled := True\<rparr>"
      "\<lparr>model = Some (example_model\<lparr>compiled := True\<rparr>),
        calls = [Call_exists MODEL_PATH, Call_getsize MODEL_PATH,
                 Call_load_model MODEL_PATH (Some False), Call_load_model MODEL_PATH None,
                 Call_compile 1]\<rparr>"
      2
      "\<lparr>cached = None, body_calls = []\<rparr>"
      "example_model\<lparr>compiled := True\<rparr>"
      "\<lparr>cached = Some (Some (example_model\<lparr>compiled := True\<rparr>), None),
        body_calls = [Call_exists MODEL_PATH, Call_getsize MODEL_PATH,
                      Call_load_model MODEL_PATH None, Call_compile 1]\<rparr>"]
    example_load_once example_load_model
  by (simp add: numeral_3_eq_3)

text \<open>
  C7, as stated, fails. The first attempt of \<^verbatim>\<open>load_model_once\<close> passes
  \<^verbatim>\<open>safe_mode=False\<close>, which turns the restricted mode off, and the bare \<^verbatim>\<open>except:\<close> falls
  back after any exception: here the first attempt runs out of memory, which is no
  matter of compatibility, and the second attempt is made all the same.
\<close>

theorem load_model_once_fallback_counterexample:
  "keras_load_model memory_error_env MODEL_PATH (Some False) =
     Inl (Exn MemoryError ''out of memory'') \<and>
   calls (snd (load_model_once memory_error_env \<lparr>model = None, calls = []\<rparr>)) =
     [Call_exists MODEL_PATH, Call_getsize MODEL_PATH,
      Call_load_model MODEL_PATH (Some False), Call_load_model MODEL_PATH None, Call_compile 1]"
  by (simp add: load_model_once_def load_finish_def called_def memory_error_env_def
      example_env_def example_model_def)

text \<open>
  C7, amended. When the model is not loaded and the file exists, \<^verbatim>\<open>load_model_once\<close>
  first deserialises with \<^verbatim>\<open>safe_mode=False\<close>, and it deserialises the same file again
  without the \<^verbatim>\<open>safe_mode\<close> keyword exactly when the first attempt raised, whatever it
  raised. The dashboard's \<^verbatim>\<open>load_model\<close> deserialises once, without the keyword, and has
  no second attempt.
\<close>

theorem load_model_once_attempts:
  "(model s = None \<and> path_exists env MODEL_PATH \<longrightarrow>
      (\<exists>rest. calls (snd (load_model_once env s)) =
                calls s @ [Call_exists MODEL_PATH, Call_getsize MODEL_PATH,
                           Call_load_model MODEL_PATH (Some False)] @ rest \<and>
              (Call_load_model MODEL_PATH None \<in> set rest
                 \<longleftrightarrow> isl (keras_load_model env MODEL_PATH (Some False))))) \<and>
   (path_exists env MODEL_PATH \<longrightarrow>
      (\<exists>rest. snd (load_model_body env cs) =
                cs @ [Call_exists MODEL_PATH, Call_getsize MODEL_PATH,
                      Call_load_model MODEL_PATH None] @ rest \<and>
              (\<forall>p kw. Call_load_model p kw \<notin> set rest)))"
  by (auto simp: load_model_once_def load_model_body_def Let_def load_failed_def called_def
      load_finish_def load_model_failed_def split: option.splits sum.splits if_splits)

theorem load_model_once_attempts_witness:
  "model \<lparr>model = None, calls = []\<rparr> = None \<and>
   path_exists example_env MODEL_PATH \<and>
   isl (keras_load_model example_env MODEL_PATH (Some False)) \<and>
   calls (snd (load_model_once example_env \<lparr>model = None, calls = []\<rparr>)) =
     [Call_exists MODEL_PATH, Call_getsize MODEL_PATH,
      Call_load_model MODEL_PATH (Some False), Call_load_model MODEL_PATH None, Call_compile 1] \<and>
   snd (load_model_body example_env []) =
     [Call_exists MODEL_PATH, Call_getsize MODEL_PATH,
      Call_load_model MODEL_PATH None, Call_compile 1]"
  using load_model_once_attempts [of "\<lparr>model = None, calls = []\<rparr>" example_env "[]"]
  by (simp add: load_model_once_def load_model_body_def load_finish_def called_def
      example_env_def example_model_def)

section \<open>Properties of the result formatter\<close>
















section \<open>Properties of preprocessing\<close>

lemma bands_pos: "0 < bands m"
  by (cases m) simp_all

lemma shape_Array: "xs \<noteq> [] \<Longrightarrow> shape (Array xs) = length xs # shape (hd xs)"
  by (cases xs) simp_all

lemma shape_map_ndarray: "shape (map_ndarray f a) = shape a"
proof (induction a)
  case (Scalar x)
  show ?case by simp
next
  case (Array xs)
  show ?case
  proof (cases xs)
    case Nil
    then show ?thesis by simp
  next
    case (Cons b bs)
    then have "shape (map_ndarray f b) = shape b" using Array.IH by simp
    with Cons show ?thesis by simp
  qed
qed

lemma wf_image_rows:
  assumes "wf_image img" "size_im img = (w, h)"
  shows "length (pixels img) = h"
    and "\<And>row. row \<in> set (pixels img) \<Longrightarrow> length row = w"
    and "\<And>row px. row \<in> set (pixels img) \<Longrightarrow> px \<in> set row \<Longrightarrow> length px = bands (mode img)"
  using assms by (auto simp: wf_image_def list_all_iff)

lemma shape_np_array:
  assumes wf: "wf_image img" and sz: "size_im img = (w, h)" and pos: "0 < w" "0 < h"
  shows "shape (np_array img) =
           (if bands (mode img) = 1 then [h, w] else [h, w, bands (mode img)])"
proof -
  from wf_image_rows(1) [OF wf sz] pos have rows: "pixels img \<noteq> []" by auto
  then have hd_row: "hd (pixels img) \<in> set (pixels img)" by simp
  from wf_image_rows(2) [OF wf sz hd_row] pos have row: "hd (pixels img) \<noteq> []"
    and roww: "length (hd (pixels img)) = w" by auto
  then have hd_px: "hd (hd (pixels img)) \<in> set (hd (pixels img))" by simp
  from wf_image_rows(3) [OF wf sz hd_row hd_px]
  have pxl: "length (hd (hd (pixels img))) = bands (mode img)" .
  with bands_pos [of "mode img"] have px: "hd (hd (pixels img)) \<noteq> []" by auto
  show ?thesis
    using rows row px pxl roww wf_image_rows(1) [OF wf sz]
    by (simp add: np_array_def shape_Array hd_map)
qed

lemma set_np_array:
  assumes wf: "wf_image img" and sz: "size_im img = (w, h)"
  shows "set_ndarray (np_array img) \<subseteq> (\<lambda>v. real (unat v)) ` set (band_values img)"
proof
  fix x assume "x \<in> set_ndarray (np_array img)"
  then obtain row px where row: "row \<in> set (pixels img)" and px: "px \<in> set row"
    and x: "x = real (unat (hd px)) \<or> (\<exists>v\<in>set px. x = real (unat v))"
    by (auto simp: np_array_def simp del: of_nat_unat split: if_splits)
  from wf_image_rows(3) [OF wf sz row px] bands_pos [of "mode img"] have "px \<noteq> []" by auto
  then have "hd px \<in> set px" by simp
  with x obtain v where v: "v \<in> set px" "x = real (unat v)" by blast
  from row px v(1) have "v \<in> set (band_values img)"
    by (auto simp: band_values_def)
  with v(2) show "x \<in> (\<lambda>v. real (unat v)) ` set (band_values img)" by blast
qed

lemma unat_byte: "unat (v :: 8 word) \<le> 255"
  using unsigned_less [of v, where ?'a = nat] by simp

lemma normalised_tensor:
  assumes ok: "resize_ok env img"
  defines "t \<equiv> true_divide (expand_dims0 (np_array (resize env img IMG_SIZE))) 255"
  shows "shape t = (if bands (mode img) = 1 then [1, 150, 150] else [1, 150, 150, bands (mode img)])"
    and "\<forall>x\<in>set_ndarray t. 0 \<le> x \<and> x \<le> 1 \<and>
           (\<exists>v\<in>set (band_values (resize env img IMG_SIZE)). x = real (unat v) / 255)"
proof -
  let ?r = "resize env img IMG_SIZE"
  from ok have wf: "wf_image ?r" and m: "mode ?r = mode img" and sz: "size_im ?r = (150, 150)"
    by (simp_all add: resize_ok_def Let_def IMG_SIZE_def)
  have "shape (np_array ?r) = (if bands (mode img) = 1 then [150, 150] else [150, 150, bands (mode img)])"
    using shape_np_array [OF wf sz] m by simp
  then show "shape t = (if bands (mode img) = 1 then [1, 150, 150] else [1, 150, 150, bands (mode img)])"
    by (simp add: t_def true_divide_def shape_map_ndarray expand_dims0_def)
  show "\<forall>x\<in>set_ndarray t. 0 \<le> x \<and> x \<le> 1 \<and>
           (\<exists>v\<in>set (band_values ?r). x = real (unat v) / 255)"
  proof
    fix x assume "x \<in> set_ndarray t"
    then obtain y where y: "y \<in> set_ndarray (np_array ?r)" and x: "x = y / 255"
      by (auto simp: t_def true_divide_def expand_dims0_def ndarray.set_map simp del: of_nat_unat)
    from y set_np_array [OF wf sz] obtain v where v: "v \<in> set (band_values ?r)" "y = real (unat v)"
      by (auto simp del: of_nat_unat)
    from unat_byte [of v] have "real (unat v) \<le> 255" by (simp del: of_nat_unat)
    with v x show "0 \<le> x \<and> x \<le> 1 \<and> (\<exists>v\<in>set (band_values ?r). x = real (unat v) / 255)"
      by (auto simp del: of_nat_unat)
  qed
qed

lemma resize_nearest_ok:
  assumes wf: "wf_image img" and sz: "size_im img = (sw, sh)" and pos: "0 < sw" "0 < sh" "0 < w" "0 < h"
  shows "wf_image (resize_nearest img (w, h))"
    and "mode (resize_nearest img (w, h)) = mode img"
    and "size_im (resize_nearest img (w, h)) = (w, h)"
proof -
  have px: "length (pixels img ! (y * sh div h) ! (x * sw div w)) = bands (mode img)"
    if "y < h" "x < w" for x y
  proof -
    from that pos have i: "y * sh div h < sh" and j: "x * sw div w < sw"
      by (simp_all add: less_mult_imp_div_less)
    from i wf_image_rows(1) [OF wf sz] have row: "pixels img ! (y * sh div h) \<in> set (pixels img)"
      by simp
    from j wf_image_rows(2) [OF wf sz row]
    have "pixels img ! (y * sh div h) ! (x * sw div w) \<in> set (pixels img ! (y * sh div h))"
      by simp
    with wf_image_rows(3) [OF wf sz row] show ?thesis by blast
  qed
  then show "wf_image (resize_nearest img (w, h))"
    by (auto simp: wf_image_def resize_nearest_def sz list_all_iff)
  show "mode (resize_nearest img (w, h)) = mode img"
    by (simp add: resize_nearest_def sz)
  show "size_im (resize_nearest img (w, h)) = (w, h)"
    by (simp add: resize_nearest_def sz)
qed

lemma example_resize_ok:
  "wf_image img \<Longrightarrow> 0 < fst (size_im img) \<Longrightarrow> 0 < snd (size_im img) \<Longrightarrow>
   resize_ok example_env img"
  using resize_nearest_ok [of img "fst (size_im img)" "snd (size_im img)" 150 150]
  by (simp add: resize_ok_def example_env_def IMG_SIZE_def)

lemma preprocess_parts:
  "fst (preprocess env img0) = (if mode img0 = ModeRGBA then convert_RGB img0 else img0)"
  "fst (snd (preprocess env img0)) = size_im img0"
  "snd (snd (preprocess env img0)) =
     true_divide (expand_dims0 (np_array
       (resize env (if mode img0 = ModeRGBA then convert_RGB img0 else img0) IMG_SIZE))) 255"
  by (simp_all add: preprocess_def Let_def convert_RGB_def split: prod.splits)

lemma image_array_eq:
  "image_array env img = true_divide (expand_dims0 (np_array (resize env img IMG_SIZE))) 255"
  by (simp add: image_array_def)

text \<open>
  The array a request hands to the model is the one \<open>preprocess\<close> made of the decoded
  upload.
\<close>

lemma predict_tensor:
  assumes "Call_predict t \<in> set (fst (predict env s req))"
  shows "\<exists>up dec. files req ''file'' = Some up \<and> image_open env (content up) = Inr dec \<and>
                  t = snd (snd (preprocess env dec))"
proof -
  from assms obtain m where m: "model s = Some m"
    by (cases "model s") (auto simp: predict_def)
  from assms m obtain up where up: "files req ''file'' = Some up"
    by (cases "files req ''file''") (auto simp: predict_def)
  from assms m up have name: "filename up \<noteq> ''''"
    by (auto simp: predict_def split: if_splits)
  from assms m up name obtain dec where dec: "image_open env (content up) = Inr dec"
    by (cases "image_open env (content up)") (auto simp: predict_def)
  obtain img w h a where p: "preprocess env dec = (img, (w, h), a)"
    by (metis surj_pair)
  from assms m up name dec p have "t = a"
    by (auto simp: predict_def Let_def split: sum.splits)
  with up dec p show ?thesis by simp
qed


lemma example_images_wf:
  "wf_image rgba_png" "wf_image (convert_RGB rgba_png)" "wf_image gray_png"
  by (simp_all add: wf_image_def rgba_png_def convert_RGB_def gray_png_def)



text \<open>
  C6. The REST handler converts an RGBA image to RGB before resizing; \<^verbatim>\<open>main\<close> and
  \<^verbatim>\<open>predict_image\<close> of the dashboard have no such step. For the RGBA example image the
  dashboard hands the model an array with four channels, where the REST handler's array
  has three.
\<close>

theorem dashboard_rgba_four_channels:
  "image_open example_env [1] = Inr rgba_png \<and>
   mode rgba_png = ModeRGBA \<and>
   shape (image_array example_env rgba_png) = [1, 150, 150, 4] \<and>
   shape (snd (snd (preprocess example_env rgba_png))) = [1, 150, 150, 3]"
proof -
  have m: "mode rgba_png = ModeRGBA" by (simp add: rgba_png_def)
  have ok: "resize_ok example_env rgba_png"
    by (rule example_resize_ok) (simp_all add: example_images_wf, simp_all add: rgba_png_def)
  have okc: "resize_ok example_env (convert_RGB rgba_png)"
    by (rule example_resize_ok) (simp_all add: example_images_wf, simp_all add: convert_RGB_def rgba_png_def)
  have c: "mode (convert_RGB rgba_png) = ModeRGB" by (simp add: convert_RGB_def)
  have t: "snd (snd (preprocess example_env rgba_png)) =
      true_divide (expand_dims0 (np_array (resize example_env (convert_RGB rgba_png) IMG_SIZE))) 255"
    by (simp add: preprocess_parts m)
  have "shape (image_array example_env rgba_png) = [1, 150, 150, 4]"
    unfolding image_array_eq using normalised_tensor(1) [OF ok] m by simp
  moreover have "shape (snd (snd (preprocess example_env rgba_png))) = [1, 150, 150, 3]"
    unfolding t using normalised_tensor(1) [OF okc] c by simp
  moreover have "image_open example_env [1] = Inr rgba_png" by (simp add: example_env_def)
  ultimately show ?thesis using m by simp
qed

lemma predict_success:
  assumes "model s = Some m" "files req ''file'' = Some up" "filename up \<noteq> ''''"
    and "image_open env (content up) = Inr dec"
    and "forward m (snd (snd (preprocess env dec))) = Inr preds"
    and "format_response preds (fst (preprocess env dec))
           (fst (fst (snd (preprocess env dec)))) (snd (fst (snd (preprocess env dec)))) = Inr r"
  shows "snd (predict env s req) = Inr (200, Success r)"
proof -
  obtain img w h t where p: "preprocess env dec = (img, (w, h), t)"
    by (metis surj_pair)
  with assms show ?thesis by (simp add: predict_def)
qed

text \<open>
  C8. The handler reads \<^verbatim>\<open>img.format\<close> after \<^verbatim>\<open>img\<close> was rebound to the converted copy,
  which has no format. For an RGBA upload decoded from a PNG file of size 2 by 1 the
  response echoes the true width and height, and the format \<^verbatim>\<open>Unknown\<close> instead of PNG.
\<close>

theorem predict_rgba_format_unknown:
  "image_open example_env [1] = Inr rgba_png \<and>
   format rgba_png = Some ''PNG'' \<and>
   size_im rgba_png = (2, 1) \<and>
   snd (predict example_env \<lparr>model = Some example_model, calls = []\<rparr>
          \<lparr>files = [''file'' \<mapsto> \<lparr>filename = ''a.png'', content = [1]\<rparr>]\<rparr>) =
     Inr (200, Success
       \<lparr>predicted_class = ''Adenocarcinoma'', confidence = 70,
        probabilities = [(''Adenocarcinoma'', 70), (''Normal'', 20), (''Squamous Cell Carcinoma'', 10)],
        info = the (CLASS_INFO ''Adenocarcinoma''),
        image_info = \<lparr>original_width = 2, original_height = 1, format_name = ''Unknown''\<rparr>\<rparr>)"
proof -
  have o: "image_open example_env [1] = Inr rgba_png" by (simp add: example_env_def)
  have f: "forward example_model (snd (snd (preprocess example_env rgba_png))) =
             Inr [[7 / 10, 2 / 10, 1 / 10]]"
    by (simp add: example_model_def)
  have i: "fst (preprocess example_env rgba_png) = convert_RGB rgba_png"
    "fst (snd (preprocess example_env rgba_png)) = (2, 1)"
    by (simp_all add: preprocess_parts rgba_png_def)
  have r: "format_response [[7 / 10, 2 / 10, 1 / 10]] (convert_RGB rgba_png) 2 1 =
      Inr \<lparr>predicted_class = ''Adenocarcinoma'', confidence = 70,
        probabilities = [(''Adenocarcinoma'', 70), (''Normal'', 20), (''Squamous Cell Carcinoma'', 10)],
        info = the (CLASS_INFO ''Adenocarcinoma''),
        image_info = \<lparr>original_width = 2, original_height = 1, format_name = ''Unknown''\<rparr>\<rparr>"
    by (simp add: format_response_def bind_exn_def getitem_def np_argmax_def CLASS_NAMES_def
        CLASS_INFO_def lookup_def py_round_def upt_rec convert_RGB_def)
  have "snd (predict example_env \<lparr>model = Some example_model, calls = []\<rparr>
          \<lparr>files = [''file'' \<mapsto> \<lparr>filename = ''a.png'', content = [1]\<rparr>]\<rparr>) =
     Inr (200, Success
       \<lparr>predicted_class = ''Adenocarcinoma'', confidence = 70,
        probabilities = [(''Adenocarcinoma'', 70), (''Normal'', 20), (''Squamous Cell Carcinoma'', 10)],
        info = the (CLASS_INFO ''Adenocarcinoma''),
        image_info = \<lparr>original_width = 2, original_height = 1, format_name = ''Unknown''\<rparr>\<rparr>)"
    by (rule predict_success [where up = "\<lparr>filename = ''a.png'', content = [1]\<rparr>"
          and dec = rgba_png and m = example_model])
       (use o f i r in simp_all)
  with o show ?thesis by (simp add: rgba_png_def)
qed

section \<open>Properties of the dashboard's analysis tab\<close>

text \<open>
  C10, as stated, fails. On a failed analysis \<^verbatim>\<open>main\<close> sets \<^verbatim>\<open>prediction_made\<close> to false,
  and the results column shows the stored diagnosis only while that flag is true: a
  session that showed an earlier result shows the placeholder after the failure.
\<close>

theorem analysis_failure_counterexample:
  "results_panel prior_session =
     Inr (Results ''10:00:00'' ''Normal'' (the (CLASS_INFO ''Normal'')) 90
            [(''Normal'', 90), (''Adenocarcinoma'', 6), (''Squamous Cell Carcinoma'', 4)]) \<and>
   run_analysis example_env failing_model rgba_png ''10:05:00'' prior_session =
     Inr ((Some ''Error during analysis: incompatible input shape'', Placeholder),
          prior_session\<lparr>prediction_made := Some False\<rparr>)"
  by (simp add: run_analysis_def analyze_def predict_image_def results_panel_def bind_exn_def
      truthy_def failing_model_def prior_session_def lookup_def CLASS_INFO_def)

text \<open>
  C10, amended. When \<^verbatim>\<open>predict_image\<close> reports an error with a non-empty text, the page
  shows that text as an inline error, the session state changes in \<^verbatim>\<open>prediction_made\<close>
  only, which becomes false, so the class, confidence and probabilities stored by the
  last successful analysis stay as they were, and the results column shows the
  placeholder, not the stored result.
\<close>

theorem analysis_failure_hides_results:
  "predict_image env m img = Inr (None, None, None, Some msg) \<Longrightarrow> msg \<noteq> [] \<Longrightarrow>
   run_analysis env m img now ss =
     Inr ((Some (''Error during analysis: '' @ msg), Placeholder),
          ss\<lparr>prediction_made := Some False\<rparr>)"
  by (simp add: run_analysis_def analyze_def results_panel_def bind_exn_def truthy_def)

theorem analysis_failure_hides_results_witness:
  "predict_image example_env failing_model rgba_png =
     Inr (None, None, None, Some ''incompatible input shape'') \<and>
   ''incompatible input shape'' \<noteq> [] \<and>
   run_analysis example_env failing_model rgba_png ''10:05:00'' prior_session =
     Inr ((Some ''Error during analysis: incompatible input shape'', Placeholder),
          prior_session\<lparr>prediction_made := Some False\<rparr>) \<and>
   ss_predicted_class (prior_session\<lparr>prediction_made := Some False\<rparr>) = Some ''Normal''"
  using analysis_failure_hides_results [of example_env failing_model rgba_png
      "''incompatible input shape''" "''10:05:00''" prior_session]
  by (simp add: predict_image_def bind_exn_def failing_model_def prior_session_def)

end
